theory Spec2Isabelle
  imports Complex_Main
begin

section \<open>JavaScript values used by \<^verbatim>\<open>src/agent.ts\<close>\<close>

text \<open>
  A JavaScript number is a finite value, one of the two infinities, or NaN. Finite values are
  embedded as reals (every double is one); \<open>-0\<close> and \<open>+0\<close> are both \<open>Num 0\<close>, which this
  program cannot tell apart (it only tests truthiness and \<^verbatim>\<open>=== 4\<close>, \<^verbatim>\<open>=== 5\<close>).
\<close>

datatype jsnum = NaN | PosInf | NegInf | Num real

text \<open>\<^verbatim>\<open>!n\<close> is true exactly for \<open>0\<close> and NaN.\<close>

fun truthy_num :: "jsnum \<Rightarrow> bool" where
  "truthy_num NaN = False"
| "truthy_num (Num r) = (r \<noteq> 0)"
| "truthy_num PosInf = True"
| "truthy_num NegInf = True"

text \<open>
  A string-valued property that may be missing: \<open>None\<close> stands for \<^verbatim>\<open>undefined\<close> and for
  \<^verbatim>\<open>null\<close> (\<^verbatim>\<open>url.parse\<close> fills absent parts with \<^verbatim>\<open>null\<close>); the program only tests such
  a value for truthiness, where both behave alike. A string is truthy when it is not empty.
\<close>

definition truthy_str :: "string option \<Rightarrow> bool" where
  "truthy_str v = (case v of None \<Rightarrow> False | Some s \<Rightarrow> s \<noteq> [])"

text \<open>\<^verbatim>\<open>a || b\<close> on such values.\<close>

definition js_or :: "string option \<Rightarrow> string option \<Rightarrow> string option" where
  "js_or a b = (if truthy_str a then a else b)"

subsection \<open>\<^verbatim>\<open>parseInt(s, 10)\<close>\<close>

text \<open>
  The built-in, after ECMAScript: skip leading white space, read an optional sign, take the
  longest prefix of decimal digits; no digit gives NaN. Characters are code units below 256.
  The value is exact here, where JavaScript rounds to the nearest double (the two agree on
  every digit string below \<open>2^53\<close>).
\<close>

definition is_space :: "char \<Rightarrow> bool" where
  "is_space c = ((of_char c :: nat) \<in> {9, 10, 11, 12, 13, 32, 160})"

definition is_digit :: "char \<Rightarrow> bool" where
  "is_digit c = (48 \<le> (of_char c :: nat) \<and> (of_char c :: nat) \<le> 57)"

definition digits_value :: "string \<Rightarrow> nat" where
  "digits_value ds = foldl (\<lambda>acc c. 10 * acc + ((of_char c :: nat) - 48)) 0 ds"

definition parseInt10 :: "string \<Rightarrow> jsnum" where
  "parseInt10 str =
     (let s = dropWhile is_space str;
          sign = (if s \<noteq> [] \<and> hd s = CHR ''-'' then - 1 else 1 :: real);
          s' = (if s \<noteq> [] \<and> (hd s = CHR ''+'' \<or> hd s = CHR ''-'') then tl s else s);
          z = takeWhile is_digit s'
      in if z = [] then NaN else Num (sign * real (digits_value z)))"

subsection \<open>\<^verbatim>\<open>String.prototype.split\<close> with a one-character separator\<close>

text \<open>
  \<^verbatim>\<open>'a:b:c'.split(':')\<close> is \<^verbatim>\<open>['a', 'b', 'c']\<close>: the string is cut at every separator, and
  the result always has at least one piece.
\<close>

fun split_on :: "char \<Rightarrow> string \<Rightarrow> string list" where
  "split_on sep [] = [[]]"
| "split_on sep (c # cs) =
     (if c = sep then [] # split_on sep cs
      else (case split_on sep cs of
              [] \<Rightarrow> [[c]]
            | piece # pieces \<Rightarrow> (c # piece) # pieces))"

text \<open>\<^verbatim>\<open>arr[i]\<close> on an array of strings is \<^verbatim>\<open>undefined\<close> out of range.\<close>

definition js_index :: "string list \<Rightarrow> nat \<Rightarrow> string option" where
  "js_index arr i = (if i < length arr then Some (arr ! i) else None)"

section \<open>Errors\<close>

text \<open>
  Every \<^verbatim>\<open>throw\<close> of the file and every rejection of a library call is a value:
  \<^item> \<open>NoHost\<close>: \<^verbatim>\<open>TypeError('No "host"')\<close> of \<^verbatim>\<open>parseSocksProxy\<close>;
  \<^item> \<open>InvalidProtocol p\<close>: \<^verbatim>\<open>TypeError('A "socks" protocol must be specified! Got: ' + p)\<close>;
  \<^item> \<open>InvalidType t\<close>: \<^verbatim>\<open>TypeError('"type" must be 4 or 5, got: ' + t)\<close>;
  \<^item> \<open>MissingSpec\<close>: \<^verbatim>\<open>TypeError('a SOCKS proxy server `host` and `port` must be specified!')\<close>
    of the constructor;
  \<^item> \<open>NoHostDefined\<close>: \<^verbatim>\<open>Error('No `host` defined!')\<close> of \<^verbatim>\<open>callback\<close>;
  \<^item> \<open>UrlFailure\<close>, \<open>DnsFailure\<close>, \<open>SocksFailure\<close>: what \<^verbatim>\<open>url.parse\<close>, \<^verbatim>\<open>dns.lookup\<close> and
    the \<^verbatim>\<open>socks\<close> client raise, passed on unchanged.
\<close>

datatype error =
    NoHost
  | InvalidProtocol string
  | InvalidType jsnum
  | MissingSpec
  | NoHostDefined
  | UrlFailure string
  | DnsFailure string
  | SocksFailure string

section \<open>\<^verbatim>\<open>parseSocksProxy\<close>\<close>

text \<open>
  Modelled from the spec: the declaration of \<^verbatim>\<open>SocksProxyAgentOptions\<close> (imported from
  \<^verbatim>\<open>'.'\<close>) is not among the sources. The spec describes a structured object exposing
  \<^verbatim>\<open>host\<close>/\<^verbatim>\<open>hostname\<close>, \<^verbatim>\<open>port\<close> (a number or a string), \<^verbatim>\<open>protocol\<close>/\<^verbatim>\<open>type\<close> and optional
  \<^verbatim>\<open>auth\<close>/\<^verbatim>\<open>username\<close>/\<^verbatim>\<open>password\<close>/\<^verbatim>\<open>userId\<close>; these are the fields \<^verbatim>\<open>parseSocksProxy\<close>
  reads. \<open>opt_type = None\<close> is \<^verbatim>\<open>typeof opts.type === 'undefined'\<close>.
\<close>

datatype port_field = PortAbsent | PortNum jsnum | PortStr string

record SocksProxyAgentOptions =
  opt_hostname :: "string option"
  opt_host :: "string option"
  opt_port :: port_field
  opt_protocol :: "string option"
  opt_type :: "jsnum option"
  opt_userId :: "string option"
  opt_username :: "string option"
  opt_password :: "string option"
  opt_auth :: "string option"

text \<open>
  The \<^verbatim>\<open>SocksProxy\<close> built at lines 81-105: \<^verbatim>\<open>host\<close>, \<^verbatim>\<open>port\<close>, \<^verbatim>\<open>type\<close>, and the two
  properties added with \<^verbatim>\<open>Object.defineProperty\<close> only when their value is truthy.
\<close>

record SocksProxy =
  proxy_host :: string
  proxy_port :: jsnum
  proxy_type :: jsnum
  proxy_userId :: "string option"
  proxy_password :: "string option"

record parsed_proxy =
  lookup :: bool
  proxy :: SocksProxy

text \<open>
  Lines 52-70, the \<^verbatim>\<open>switch\<close> with its two fall-throughs, from the values \<^verbatim>\<open>lookup\<close> and
  \<^verbatim>\<open>type\<close> have before it.
\<close>

definition protocol_switch :: "string \<Rightarrow> bool \<times> jsnum \<Rightarrow> error + bool \<times> jsnum" where
  "protocol_switch protocol init =
     (if protocol = ''socks4:'' then Inr (True, Num 4)
      else if protocol = ''socks4a:'' then Inr (fst init, Num 4)
      else if protocol = ''socks5:'' then Inr (True, Num 5)
      else if protocol = ''socks:'' \<or> protocol = ''socks5h:'' then Inr (fst init, Num 5)
      else Inl (InvalidProtocol protocol))"

text \<open>Lines 87-93: the credentials before the truthiness tests of lines 94 and 100.\<close>

definition credentials :: "SocksProxyAgentOptions \<Rightarrow> string option \<times> string option" where
  "credentials opts =
     (let userId = js_or (opt_userId opts) (opt_username opts);
          password = opt_password opts
      in if truthy_str (opt_auth opts)
         then (let auth = split_on CHR '':'' (the (opt_auth opts))
               in (js_index auth 0, js_index auth 1))
         else (userId, password))"

definition parseSocksProxy :: "SocksProxyAgentOptions \<Rightarrow> error + parsed_proxy" where
  "parseSocksProxy opts =
     (let host = js_or (opt_hostname opts) (opt_host opts)
      in if \<not> truthy_str host then Inl NoHost
         else
           let port0 = (case opt_port opts of
                          PortNum n \<Rightarrow> n
                        | PortStr s \<Rightarrow> parseInt10 s
                        | PortAbsent \<Rightarrow> Num 0);
               port = (if \<not> truthy_num port0 then Num 1080 else port0)
           in case (if truthy_str (opt_protocol opts)
                    then protocol_switch (the (opt_protocol opts)) (False, Num 5)
                    else Inr (False, Num 5)) of
                Inl e \<Rightarrow> Inl e
              | Inr (lookup1, type1) \<Rightarrow>
                  (case (case opt_type opts of
                           None \<Rightarrow> Inr type1
                         | Some t \<Rightarrow> if t = Num 4 \<or> t = Num 5 then Inr t
                                     else Inl (InvalidType t)) of
                     Inl e \<Rightarrow> Inl e
                   | Inr type2 \<Rightarrow>
                       (let (userId, password) = credentials opts
                        in Inr \<lparr>lookup = lookup1,
                                proxy = \<lparr>proxy_host = the host,
                                          proxy_port = port,
                                          proxy_type = type2,
                                          proxy_userId =
                                            (if truthy_str userId then userId else None),
                                          proxy_password =
                                            (if truthy_str password then password else None)\<rparr>\<rparr>)))"

section \<open>The constructor of \<^verbatim>\<open>SocksProxyAgent\<close>\<close>

text \<open>
  What a caller can pass for one proxy: the declared \<^verbatim>\<open>string | SocksProxyAgentOptions\<close>,
  and \<^verbatim>\<open>undefined\<close> or \<^verbatim>\<open>null\<close>, which the constructor tests for (the repository's test
  calls \<^verbatim>\<open>new SocksProxyAgent()\<close>). The argument is one of these or an array of them.
\<close>

datatype raw_opt =
    RawUndefined
  | RawNull
  | RawString string
  | RawOptions SocksProxyAgentOptions

datatype raw_opts = Single raw_opt | Array "raw_opt list"

text \<open>\<^verbatim>\<open>!rawOpt\<close>: an object is truthy, a string is truthy unless empty.\<close>

fun falsy_raw :: "raw_opt \<Rightarrow> bool" where
  "falsy_raw RawUndefined = True"
| "falsy_raw RawNull = True"
| "falsy_raw (RawString s) = (s = [])"
| "falsy_raw (RawOptions opts) = False"

text \<open>
  \<^verbatim>\<open>url.parse\<close> belongs to Node, not to this repository: it is a parameter, a function from
  the string to the \<^verbatim>\<open>Url\<close> object or to the message of the error it throws.
\<close>

type_synonym url_parse = "string \<Rightarrow> string + SocksProxyAgentOptions"

text \<open>
  Lines 129-142, the loop over \<^verbatim>\<open>rawOptsArray\<close> with the array \<^verbatim>\<open>opts\<close> built so far: a
  string is parsed and pushed, anything else is pushed as it is, and only then is the element
  tested with \<^verbatim>\<open>!rawOpt\<close>.
\<close>

fun collect_opts ::
  "url_parse \<Rightarrow> raw_opt list \<Rightarrow> SocksProxyAgentOptions list
     \<Rightarrow> error + SocksProxyAgentOptions list" where
  "collect_opts parse [] opts = Inr opts"
| "collect_opts parse (RawString s # rest) opts =
     (case parse s of
        Inl msg \<Rightarrow> Inl (UrlFailure msg)
      | Inr parsed \<Rightarrow>
          if falsy_raw (RawString s) then Inl MissingSpec
          else collect_opts parse rest (opts @ [parsed]))"
| "collect_opts parse (RawOptions rawOpt # rest) opts =
     collect_opts parse rest (opts @ [rawOpt])"
| "collect_opts parse (RawUndefined # rest) opts = Inl MissingSpec"
| "collect_opts parse (RawNull # rest) opts = Inl MissingSpec"

text \<open>
  Line 145, \<^verbatim>\<open>opts.map(o => parseSocksProxy(o))\<close>: the elements are parsed in order, and
  the first one that throws ends the constructor.
\<close>

fun parse_all :: "SocksProxyAgentOptions list \<Rightarrow> error + parsed_proxy list" where
  "parse_all [] = Inr []"
| "parse_all (opt # rest) =
     (case parseSocksProxy opt of
        Inl e \<Rightarrow> Inl e
      | Inr p \<Rightarrow> (case parse_all rest of Inl e \<Rightarrow> Inl e | Inr ps \<Rightarrow> Inr (p # ps)))"

text \<open>The two private fields of the class.\<close>

record SocksProxyAgent =
  lookups :: "bool list"
  proxies :: "SocksProxy list"

text \<open>
  The constructor, lines 119-148: \<^verbatim>\<open>rawOptsArray\<close> is the argument if that is an array and
  the one-element array of it otherwise. \<^verbatim>\<open>super(opts)\<close>, the constructor of \<^verbatim>\<open>agent-base\<close>,
  reads no field this file uses and is left out.
\<close>

definition rawOptsArray :: "raw_opts \<Rightarrow> raw_opt list" where
  "rawOptsArray rawOpts = (case rawOpts of Array xs \<Rightarrow> xs | Single x \<Rightarrow> [x])"

definition new_SocksProxyAgent :: "url_parse \<Rightarrow> raw_opts \<Rightarrow> error + SocksProxyAgent" where
  "new_SocksProxyAgent parse rawOpts =
     (case collect_opts parse (rawOptsArray rawOpts) [] of
        Inl e \<Rightarrow> Inl e
      | Inr opts \<Rightarrow>
          (case parse_all opts of
             Inl e \<Rightarrow> Inl e
           | Inr parsedProxies \<Rightarrow>
               Inr \<lparr>lookups = map lookup parsedProxies,
                    proxies = map proxy parsedProxies\<rparr>))"

section \<open>Objects and the heap\<close>

text \<open>
  The options of a request are an ordinary object with any properties, read by name and
  copied by \<^verbatim>\<open>omit\<close>. A value is a primitive, a reference to an object of the heap, or a
  socket (an object of Node that this file only passes on).
\<close>

datatype jsval =
    JUndefined
  | JNull
  | JBool bool
  | JNum jsnum
  | JStr string
  | JRef nat
  | JSocket nat

fun truthy :: "jsval \<Rightarrow> bool" where
  "truthy JUndefined = False"
| "truthy JNull = False"
| "truthy (JBool b) = b"
| "truthy (JNum n) = truthy_num n"
| "truthy (JStr s) = (s \<noteq> [])"
| "truthy (JRef a) = True"
| "truthy (JSocket n) = True"

text \<open>
  An object is the list of its own data properties in enumeration order, each with its value
  and its \<^verbatim>\<open>enumerable\<close> attribute. Prototype chains and accessor properties are not part of
  the model.
\<close>

record property =
  prop_value :: jsval
  prop_enumerable :: bool

type_synonym js_object = "(string \<times> property) list"

text \<open>\<^verbatim>\<open>obj[key]\<close>: the value of the property, \<^verbatim>\<open>undefined\<close> when there is none.\<close>

definition get_prop :: "js_object \<Rightarrow> string \<Rightarrow> jsval" where
  "get_prop obj key = (case map_of obj key of None \<Rightarrow> JUndefined | Some p \<Rightarrow> prop_value p)"

text \<open>The keys \<^verbatim>\<open>for (key in obj)\<close> visits: the enumerable ones, in order.\<close>

definition for_in_keys :: "js_object \<Rightarrow> string list" where
  "for_in_keys obj = map fst (filter (\<lambda>kp. prop_enumerable (snd kp)) obj)"

text \<open>
  \<^verbatim>\<open>obj[key] = v\<close>: an existing property takes the new value, a new one is created
  enumerable at the end.
\<close>

definition set_prop :: "js_object \<Rightarrow> string \<Rightarrow> jsval \<Rightarrow> js_object" where
  "set_prop obj key v =
     (if key \<in> fst ` set obj
      then map (\<lambda>kp. if fst kp = key then (key, (snd kp)\<lparr>prop_value := v\<rparr>) else kp) obj
      else obj @ [(key, \<lparr>prop_value = v, prop_enumerable = True\<rparr>)])"

text \<open>
  \<^verbatim>\<open>{...obj}\<close>: the own enumerable properties of \<^verbatim>\<open>obj\<close> copied into a new object literal.
\<close>

definition spread :: "js_object \<Rightarrow> js_object" where
  "spread obj = fold (\<lambda>key lit. set_prop lit key (get_prop obj key)) (for_in_keys obj) []"

text \<open>
  The heap is the list of the objects allocated so far; an address is an index into it, and a
  new object goes to the end.
\<close>

type_synonym heap = "js_object list"

section \<open>\<^verbatim>\<open>omit\<close>\<close>

text \<open>
  Lines 210-226. \<^verbatim>\<open>ret\<close> is a new empty object; the loop visits the enumerable keys of \<^verbatim>\<open>obj\<close>
  and writes \<^verbatim>\<open>ret[key] = obj[key]\<close> for each key that \<^verbatim>\<open>keys\<close> does not include; the address
  of \<^verbatim>\<open>ret\<close> is returned with the heap.
\<close>

definition omit :: "heap \<Rightarrow> nat \<Rightarrow> string list \<Rightarrow> heap \<times> nat" where
  "omit h obj keys =
     (let ret = length h;
          h0 = h @ [[]]
      in (fold (\<lambda>key h'. if key \<notin> set keys
                           then h'[ret := set_prop (h' ! ret) key (get_prop (h' ! obj) key)]
                           else h')
               (for_in_keys (h0 ! obj)) h0,
          ret))"

section \<open>\<^verbatim>\<open>callback\<close>\<close>

text \<open>The options handed to the \<^verbatim>\<open>socks\<close> client, and what the outside world is asked.\<close>

record SocksClientOptions =
  sc_proxy :: SocksProxy
  sc_destination :: "jsval \<times> jsval"
  sc_command :: string

record SocksClientChainOptions =
  scc_proxies :: "SocksProxy list"
  scc_destination :: "jsval \<times> jsval"
  scc_command :: string

datatype event =
    DnsLookup jsval
  | CreateConnection SocksClientOptions
  | CreateConnectionChain SocksClientChainOptions
  | TlsConnect js_object

text \<open>
  The libraries are parameters: what \<^verbatim>\<open>dns.lookup\<close> answers for a host,
  what \<^verbatim>\<open>SocksClient.createConnection\<close> and \<^verbatim>\<open>SocksClient.createConnectionChain\<close> answer
  (the socket, or the message of the rejection), and the socket \<^verbatim>\<open>tls.connect\<close> returns.
\<close>

record env =
  dns_lookup :: "jsval \<Rightarrow> string + jsval"
  createConnection :: "SocksClientOptions \<Rightarrow> string + jsval"
  createConnectionChain :: "SocksClientChainOptions \<Rightarrow> string + jsval"
  tls_connect :: "js_object \<Rightarrow> jsval"

text \<open>
  The state a call runs in: the agent (\<^verbatim>\<open>this\<close>), the heap, and the calls made to the
  libraries so far, oldest first.
\<close>

record cstate =
  agent :: SocksProxyAgent
  heap :: heap
  trace :: "event list"

text \<open>Any array is an object, and every object is truthy.\<close>

definition truthy_array :: "'a list \<Rightarrow> bool" where
  "truthy_array xs = True"

text \<open>Lines 12-22 and 168-171: \<^verbatim>\<open>if (lookups.length>0 && lookups) host = await dnsLookup(host)\<close>.\<close>

definition dnsLookup :: "env \<Rightarrow> jsval \<Rightarrow> cstate \<Rightarrow> (error + jsval) \<times> cstate" where
  "dnsLookup e host s =
     (case dns_lookup e host of
        Inl err \<Rightarrow> (Inl (DnsFailure err), s\<lparr>trace := trace s @ [DnsLookup host]\<rparr>)
      | Inr res \<Rightarrow> (Inr res, s\<lparr>trace := trace s @ [DnsLookup host]\<rparr>))"

definition resolve_host :: "env \<Rightarrow> jsval \<Rightarrow> cstate \<Rightarrow> (error + jsval) \<times> cstate" where
  "resolve_host e host s =
     (if 0 < length (lookups (agent s)) \<and> truthy_array (lookups (agent s))
      then dnsLookup e host s
      else (Inr host, s))"

text \<open>Lines 173-192: the tunnel, by one client call or the other.\<close>

definition create_tunnel ::
  "env \<Rightarrow> jsval \<Rightarrow> jsval \<Rightarrow> cstate \<Rightarrow> (error + jsval) \<times> cstate" where
  "create_tunnel e host port s =
     (if length (proxies (agent s)) = 1
      then (let socksOpts = \<lparr>sc_proxy = proxies (agent s) ! 0,
                             sc_destination = (host, port),
                             sc_command = ''connect''\<rparr>;
                s' = s\<lparr>trace := trace s @ [CreateConnection socksOpts]\<rparr>
            in case createConnection e socksOpts of
                 Inl err \<Rightarrow> (Inl (SocksFailure err), s')
               | Inr socket \<Rightarrow> (Inr socket, s'))
      else (let socksOpts = \<lparr>scc_proxies = proxies (agent s),
                             scc_destination = (host, port),
                             scc_command = ''connect''\<rparr>;
                s' = s\<lparr>trace := trace s @ [CreateConnectionChain socksOpts]\<rparr>
            in case createConnectionChain e socksOpts of
                 Inl err \<Rightarrow> (Inl (SocksFailure err), s')
               | Inr socket \<Rightarrow> (Inr socket, s')))"

text \<open>
  Lines 160-192, up to the tunnel: the host the tunnel was asked for and the socket, or the
  error.
\<close>

definition establish ::
  "env \<Rightarrow> nat \<Rightarrow> cstate \<Rightarrow> (error + jsval \<times> jsval) \<times> cstate" where
  "establish e opts s =
     (let host = get_prop (heap s ! opts) ''host'';
          port = get_prop (heap s ! opts) ''port''
      in if \<not> truthy host then (Inl NoHostDefined, s)
         else (case resolve_host e host s of
                 (Inl err, s1) \<Rightarrow> (Inl err, s1)
               | (Inr host1, s1) \<Rightarrow>
                   (case create_tunnel e host1 port s1 of
                      (Inl err, s2) \<Rightarrow> (Inl err, s2)
                    | (Inr socket, s2) \<Rightarrow> (Inr (host1, socket), s2))))"

text \<open>
  Lines 194-206: the options of \<^verbatim>\<open>tls.connect\<close> are a new object literal, the spread of what
  \<^verbatim>\<open>omit\<close> returns followed by \<^verbatim>\<open>socket\<close> and \<^verbatim>\<open>servername\<close>.
\<close>

definition upgrade ::
  "env \<Rightarrow> nat \<Rightarrow> jsval \<Rightarrow> jsval \<Rightarrow> cstate \<Rightarrow> (error + jsval) \<times> cstate" where
  "upgrade e opts host socket s =
     (if truthy (get_prop (heap s ! opts) ''secureEndpoint'')
      then (let servername = (if truthy (get_prop (heap s ! opts) ''servername'')
                              then get_prop (heap s ! opts) ''servername'' else host);
                (h1, rest) = omit (heap s) opts [''host'', ''hostname'', ''path'', ''port''];
                tlsOpts = set_prop (set_prop (spread (h1 ! rest)) ''socket'' socket)
                                   ''servername'' servername
            in (Inr (tls_connect e tlsOpts),
                s\<lparr>heap := h1 @ [tlsOpts], trace := trace s @ [TlsConnect tlsOpts]\<rparr>))
      else (Inr socket, s))"

text \<open>
  The method, for the request options at address \<^verbatim>\<open>opts\<close> (the parameter \<^verbatim>\<open>req\<close> is not
  used by the source).
\<close>

definition callback :: "env \<Rightarrow> nat \<Rightarrow> cstate \<Rightarrow> (error + jsval) \<times> cstate" where
  "callback e opts s =
     (case establish e opts s of
        (Inl err, s2) \<Rightarrow> (Inl err, s2)
      | (Inr (host1, socket), s2) \<Rightarrow> upgrade e opts host1 socket s2)"

text \<open>Several requests on one agent, one after the other, each with its own world.\<close>

fun run_requests :: "(env \<times> nat) list \<Rightarrow> cstate \<Rightarrow> cstate" where
  "run_requests [] s = s"
| "run_requests ((e, opts) # rest) s = run_requests rest (snd (callback e opts s))"

section \<open>The specification's wording, and notions used to state the properties\<close>

text \<open>
  The table of section 4.1 of the specification: the type and the resolution flag of each
  scheme, \<open>None\<close> for a scheme that is not in the table.
\<close>

definition spec_scheme_table :: "string \<Rightarrow> (jsnum \<times> bool) option" where
  "spec_scheme_table scheme =
     (if scheme = ''socks4:'' then Some (Num 4, True)
      else if scheme = ''socks4a:'' then Some (Num 4, False)
      else if scheme = ''socks5:'' then Some (Num 5, True)
      else if scheme = ''socks:'' then Some (Num 5, False)
      else if scheme = ''socks5h:'' then Some (Num 5, False)
      else None)"

text \<open>
  The port rule of the specification: the number itself, or the base-10 parse of the string;
  1080 when the port is absent, zero or not a number.
\<close>

definition spec_port :: "port_field \<Rightarrow> jsnum" where
  "spec_port pf =
     (case pf of
        PortAbsent \<Rightarrow> Num 1080
      | PortNum n \<Rightarrow> if n = Num 0 \<or> n = NaN then Num 1080 else n
      | PortStr s \<Rightarrow> if parseInt10 s = Num 0 \<or> parseInt10 s = NaN then Num 1080
                     else parseInt10 s)"



text \<open>
  The invariant of a descriptor in section 3 of the specification: the type is 4 or 5, the
  port is a positive integer, the host is not empty.
\<close>

definition spec_positive_integer :: "jsnum \<Rightarrow> bool" where
  "spec_positive_integer n =
     (case n of Num r \<Rightarrow> 0 < r \<and> real_of_int \<lfloor>r\<rfloor> = r | NaN \<Rightarrow> False | PosInf \<Rightarrow> False
      | NegInf \<Rightarrow> False)"

definition spec_descriptor_invariant :: "SocksProxy \<Rightarrow> bool" where
  "spec_descriptor_invariant d =
     ((proxy_type d = Num 4 \<or> proxy_type d = Num 5) \<and> spec_positive_integer (proxy_port d)
      \<and> proxy_host d \<noteq> [])"

text \<open>
  The structured fields of one element of the constructor's argument: the object itself, or
  what \<^verbatim>\<open>url.parse\<close> makes of the string.
\<close>

definition spec_fields :: "url_parse \<Rightarrow> raw_opt \<Rightarrow> SocksProxyAgentOptions option" where
  "spec_fields parse rawOpt =
     (case rawOpt of
        RawOptions opts \<Rightarrow> Some opts
      | RawString s \<Rightarrow> (case parse s of Inl msg \<Rightarrow> None | Inr parsed \<Rightarrow> Some parsed)
      | RawUndefined \<Rightarrow> None
      | RawNull \<Rightarrow> None)"

text \<open>
  Step 3 of section 4.2 of the specification: a single-hop connect against the one descriptor
  of a chain of length one, a chained connect over the whole chain otherwise.
\<close>

definition spec_tunnel_call :: "SocksProxy list \<Rightarrow> jsval \<Rightarrow> jsval \<Rightarrow> event" where
  "spec_tunnel_call chain host port =
     (if length chain = 1
      then CreateConnection \<lparr>sc_proxy = hd chain, sc_destination = (host, port),
                              sc_command = ''connect''\<rparr>
      else CreateConnectionChain \<lparr>scc_proxies = chain, scc_destination = (host, port),
                                   scc_command = ''connect''\<rparr>)"

fun is_tunnel :: "event \<Rightarrow> bool" where
  "is_tunnel (CreateConnection socksOpts) = True"
| "is_tunnel (CreateConnectionChain socksOpts) = True"
| "is_tunnel (DnsLookup host) = False"
| "is_tunnel (TlsConnect tlsOpts) = False"

fun is_dns :: "event \<Rightarrow> bool" where
  "is_dns (DnsLookup host) = True"
| "is_dns (CreateConnection socksOpts) = False"
| "is_dns (CreateConnectionChain socksOpts) = False"
| "is_dns (TlsConnect tlsOpts) = False"

text \<open>The library calls one \<^verbatim>\<open>callback\<close> adds to the trace.\<close>

definition new_events :: "env \<Rightarrow> nat \<Rightarrow> cstate \<Rightarrow> event list" where
  "new_events e opts s = drop (length (trace s)) (trace (snd (callback e opts s)))"



section \<open>Sample inputs\<close>

text \<open>The object \<^verbatim>\<open>{}\<close>, and what \<^verbatim>\<open>url.parse('socks://127.0.0.1:1080')\<close> returns in Node.\<close>

definition no_opts :: SocksProxyAgentOptions where
  "no_opts = \<lparr>opt_hostname = None, opt_host = None, opt_port = PortAbsent,
              opt_protocol = None, opt_type = None, opt_userId = None, opt_username = None,
              opt_password = None, opt_auth = None\<rparr>"

definition socks_url_opts :: SocksProxyAgentOptions where
  "socks_url_opts = no_opts\<lparr>opt_protocol := Some ''socks:'', opt_hostname := Some ''127.0.0.1'',
                             opt_host := Some ''127.0.0.1:1080'', opt_port := PortStr ''1080''\<rparr>"

text \<open>
  A stand-in for \<^verbatim>\<open>url.parse\<close> that knows this one URL and the empty string (every part
  \<^verbatim>\<open>null\<close>).
\<close>

definition sample_url_parse :: url_parse where
  "sample_url_parse s =
     (if s = ''socks://127.0.0.1:1080'' then Inr socks_url_opts
      else if s = [] then Inr no_opts
      else Inl ''URI malformed'')"

definition sample_proxy :: SocksProxy where
  "sample_proxy = \<lparr>proxy_host = ''127.0.0.1'', proxy_port = Num 1080, proxy_type = Num 5,
                   proxy_userId = None, proxy_password = None\<rparr>"

text \<open>
  A world where every library call succeeds, and the options of a request for
  \<^verbatim>\<open>https://example.com/foo\<close>.
\<close>

definition sample_env :: env where
  "sample_env = \<lparr>dns_lookup = (\<lambda>host. Inr (JStr ''93.184.216.34'')),
                 createConnection = (\<lambda>socksOpts. Inr (JSocket 1)),
                 createConnectionChain = (\<lambda>socksOpts. Inr (JSocket 2)),
                 tls_connect = (\<lambda>tlsOpts. JSocket 3)\<rparr>"

definition enum_prop :: "jsval \<Rightarrow> property" where
  "enum_prop v = \<lparr>prop_value = v, prop_enumerable = True\<rparr>"

definition sample_request :: js_object where
  "sample_request =
     [(''host'', enum_prop (JStr ''example.com'')),
      (''port'', enum_prop (JNum (Num 443))),
      (''path'', enum_prop (JStr ''/foo'')),
      (''secureEndpoint'', enum_prop (JBool True)),
      (''rejectUnauthorized'', enum_prop (JBool False))]"

text \<open>
  Proxy options written as objects: \<^verbatim>\<open>socks5h://127.0.0.1:1080\<close>, where the proxy resolves
  the destination, and \<^verbatim>\<open>socks4://10.0.0.1\<close>, where the client does.
\<close>

definition socks5h_opts :: SocksProxyAgentOptions where
  "socks5h_opts = no_opts\<lparr>opt_protocol := Some ''socks5h:'', opt_hostname := Some ''127.0.0.1'',
                           opt_port := PortNum (Num 1080)\<rparr>"

definition socks4_opts :: SocksProxyAgentOptions where
  "socks4_opts = no_opts\<lparr>opt_protocol := Some ''socks4:'', opt_host := Some ''10.0.0.1''\<rparr>"

definition socks4_proxy :: SocksProxy where
  "socks4_proxy = \<lparr>proxy_host = ''10.0.0.1'', proxy_port = Num 1080, proxy_type = Num 4,
                   proxy_userId = None, proxy_password = None\<rparr>"

definition sample_state :: "SocksProxyAgent \<Rightarrow> cstate" where
  "sample_state a = \<lparr>agent = a, heap = [sample_request], trace = []\<rparr>"

text \<open>The proxies a tunnel call was given.\<close>

fun event_chain :: "event \<Rightarrow> SocksProxy list" where
  "event_chain (CreateConnection socksOpts) = [sc_proxy socksOpts]"
| "event_chain (CreateConnectionChain socksOpts) = scc_proxies socksOpts"
| "event_chain (DnsLookup host) = []"
| "event_chain (TlsConnect tlsOpts) = []"


section \<open>Lemmas about the built-ins\<close>

lemma truthy_num_iff: "truthy_num n \<longleftrightarrow> n \<noteq> Num 0 \<and> n \<noteq> NaN"
  by (cases n) auto










section \<open>Lemmas about \<^verbatim>\<open>parseSocksProxy\<close>\<close>

lemma protocol_switch_table:
  "protocol_switch s (False, Num 5) =
     (case spec_scheme_table s of
        Some (t, f) \<Rightarrow> Inr (f, t)
      | None \<Rightarrow> Inl (InvalidProtocol s))"
  by (simp add: protocol_switch_def spec_scheme_table_def)

lemma parse_port:
  assumes "parseSocksProxy opts = Inr p"
  shows "proxy_port (proxy p) = spec_port (opt_port opts)"
  using assms
  by (auto simp: parseSocksProxy_def spec_port_def truthy_num_iff Let_def
           split: if_splits sum.splits prod.splits option.splits port_field.splits)

lemma parse_host:
  assumes "parseSocksProxy opts = Inr p"
  shows "js_or (opt_hostname opts) (opt_host opts) = Some (proxy_host (proxy p))
         \<and> proxy_host (proxy p) \<noteq> []"
  using assms
  by (auto simp: parseSocksProxy_def truthy_str_def Let_def
           split: if_splits sum.splits prod.splits option.splits)

lemma parse_type:
  assumes "parseSocksProxy opts = Inr p"
  shows "proxy_type (proxy p) = Num 4 \<or> proxy_type (proxy p) = Num 5"
  using assms
  by (auto simp: parseSocksProxy_def protocol_switch_def Let_def
           split: if_splits sum.splits prod.splits option.splits)

lemma parse_no_host:
  "\<not> truthy_str (opt_hostname opts) \<Longrightarrow> \<not> truthy_str (opt_host opts) \<Longrightarrow>
     parseSocksProxy opts = Inl NoHost"
  by (simp add: parseSocksProxy_def js_or_def)

lemma parse_invalid_type:
  assumes "truthy_str (js_or (opt_hostname opts) (opt_host opts))"
    and "truthy_str (opt_protocol opts) \<longrightarrow> spec_scheme_table (the (opt_protocol opts)) \<noteq> None"
    and "opt_type opts = Some t" and "t \<noteq> Num 4" and "t \<noteq> Num 5"
  shows "parseSocksProxy opts = Inl (InvalidType t)"
  using assms
  by (auto simp: parseSocksProxy_def protocol_switch_table Let_def
           split: option.splits prod.splits)

lemma split_on_first:
  "sep \<notin> set u \<Longrightarrow> split_on sep (u @ sep # rest) = u # split_on sep rest"
  by (induction u) auto

lemma split_on_no_sep: "sep \<notin> set s \<Longrightarrow> split_on sep s = [s]"
  by (induction s) auto

lemma split_on_nonempty: "split_on sep s \<noteq> []"
  by (induction s) (auto split: list.splits)

lemma split_on_second:
  "sep \<notin> set u \<Longrightarrow>
     js_index (split_on sep (u @ sep # rest)) 1 = Some (takeWhile (\<lambda>c. c \<noteq> sep) rest)"
proof -
  have "hd (split_on sep rest) = takeWhile (\<lambda>c. c \<noteq> sep) rest"
    by (induction rest) (auto simp: split_on_nonempty split: list.splits)
  moreover assume "sep \<notin> set u"
  ultimately show ?thesis
    using split_on_nonempty [of sep rest]
    by (cases "split_on sep rest") (auto simp: split_on_first js_index_def)
qed

text \<open>Without a truthy \<^verbatim>\<open>auth\<close> the credentials are the individual fields.\<close>

lemma credentials_without_auth:
  "\<not> truthy_str (opt_auth opts) \<Longrightarrow>
     credentials opts = (js_or (opt_userId opts) (opt_username opts), opt_password opts)"
  by (simp add: credentials_def)

text \<open>
  A truthy \<^verbatim>\<open>auth\<close> replaces both: the user is what precedes its first colon, the password
  what lies between the first colon and the second.
\<close>

lemma credentials_with_auth:
  assumes "opt_auth opts = Some (u @ CHR '':'' # rest)" and "CHR '':'' \<notin> set u"
  shows "credentials opts = (Some u, Some (takeWhile (\<lambda>c. c \<noteq> CHR '':'') rest))"
  using assms split_on_second [of "CHR '':''" u rest]
  by (simp add: credentials_def truthy_str_def split_on_first js_index_def)

section \<open>Lemmas about the constructor\<close>

lemma collect_opts_Inr:
  "collect_opts parse raws acc = Inr opts \<Longrightarrow>
     \<exists>new. opts = acc @ new \<and>
           list_all2 (\<lambda>r opt. \<not> falsy_raw r \<and> spec_fields parse r = Some opt) raws new"
proof (induction parse raws acc rule: collect_opts.induct)
  case (1 parse opts)
  then show ?case by simp
next
  case (2 parse s rest opts')
  then show ?case
    by (auto simp: spec_fields_def list_all2_Cons1 split: sum.splits if_splits)
next
  case (3 parse rawOpt rest opts')
  then show ?case
    by (auto simp: spec_fields_def list_all2_Cons1)
next
  case (4 parse rest opts)
  then show ?case by simp
next
  case (5 parse rest opts)
  then show ?case by simp
qed



lemma parse_all_Inr:
  "parse_all opts = Inr ps \<Longrightarrow> list_all2 (\<lambda>opt p. parseSocksProxy opt = Inr p) opts ps"
  by (induction opts arbitrary: ps) (auto split: sum.splits)

lemma new_agent_Inr:
  assumes "new_SocksProxyAgent parse raw = Inr a"
  shows "\<exists>ps. lookups a = map lookup ps \<and> proxies a = map proxy ps \<and>
           list_all2 (\<lambda>r p. \<not> falsy_raw r \<and>
                        (\<exists>opt. spec_fields parse r = Some opt \<and> parseSocksProxy opt = Inr p))
                     (rawOptsArray raw) ps"
proof -
  from assms obtain opts ps where
    c: "collect_opts parse (rawOptsArray raw) [] = Inr opts" and
    p: "parse_all opts = Inr ps" and
    a: "a = \<lparr>lookups = map lookup ps, proxies = map proxy ps\<rparr>"
    by (auto simp: new_SocksProxyAgent_def split: sum.splits)
  from collect_opts_Inr [OF c]
  have 1: "list_all2 (\<lambda>r opt. \<not> falsy_raw r \<and> spec_fields parse r = Some opt)
             (rawOptsArray raw) opts"
    by simp
  from parse_all_Inr [OF p]
  have 2: "list_all2 (\<lambda>opt p. parseSocksProxy opt = Inr p) opts ps" .
  have "list_all2 (\<lambda>r p. \<not> falsy_raw r \<and>
                        (\<exists>opt. spec_fields parse r = Some opt \<and> parseSocksProxy opt = Inr p))
                     (rawOptsArray raw) ps"
    unfolding list_all2_conv_all_nth
  proof (intro conjI allI impI)
    show "length (rawOptsArray raw) = length ps"
      using 1 2 by (simp add: list_all2_lengthD)
  next
    fix i assume i: "i < length (rawOptsArray raw)"
    then have "i < length opts"
      using 1 by (simp add: list_all2_lengthD)
    then have "parseSocksProxy (opts ! i) = Inr (ps ! i)"
      using 2 by (simp add: list_all2_conv_all_nth)
    moreover have "spec_fields parse (rawOptsArray raw ! i) = Some (opts ! i)"
      using 1 i by (simp add: list_all2_conv_all_nth)
    ultimately show "\<exists>opt. spec_fields parse (rawOptsArray raw ! i) = Some opt \<and>
                          parseSocksProxy opt = Inr (ps ! i)"
      by blast
  next
    fix i assume i: "i < length (rawOptsArray raw)"
    then show "\<not> falsy_raw (rawOptsArray raw ! i)"
      using 1 by (simp add: list_all2_conv_all_nth)
  qed
  with a show ?thesis by auto
qed

text \<open>One descriptor and one flag for each element of the argument, in its order.\<close>

lemma new_agent_chain:
  assumes "new_SocksProxyAgent parse raw = Inr a"
  shows "length (proxies a) = length (rawOptsArray raw) \<and>
         length (lookups a) = length (rawOptsArray raw) \<and>
         (\<forall>i < length (rawOptsArray raw).
            \<exists>opts p. spec_fields parse (rawOptsArray raw ! i) = Some opts \<and>
                     parseSocksProxy opts = Inr p \<and>
                     proxies a ! i = proxy p \<and> lookups a ! i = lookup p \<and>
                     js_or (opt_hostname opts) (opt_host opts)
                       = Some (proxy_host (proxies a ! i)) \<and>
                     proxy_port (proxies a ! i) = spec_port (opt_port opts))"
proof -
  from new_agent_Inr [OF assms] obtain ps where
    l: "lookups a = map lookup ps" and x: "proxies a = map proxy ps" and
    r: "list_all2 (\<lambda>r p. \<not> falsy_raw r \<and>
                        (\<exists>opt. spec_fields parse r = Some opt \<and> parseSocksProxy opt = Inr p))
                     (rawOptsArray raw) ps"
    by blast
  have len: "length ps = length (rawOptsArray raw)"
    using r by (simp add: list_all2_lengthD)
  show ?thesis
  proof (intro conjI allI impI)
    fix i assume i: "i < length (rawOptsArray raw)"
    with r obtain opt where
      "spec_fields parse (rawOptsArray raw ! i) = Some opt" "parseSocksProxy opt = Inr (ps ! i)"
      by (auto simp: list_all2_conv_all_nth)
    then show "\<exists>opts p. spec_fields parse (rawOptsArray raw ! i) = Some opts \<and>
                     parseSocksProxy opts = Inr p \<and>
                     proxies a ! i = proxy p \<and> lookups a ! i = lookup p \<and>
                     js_or (opt_hostname opts) (opt_host opts)
                       = Some (proxy_host (proxies a ! i)) \<and>
                     proxy_port (proxies a ! i) = spec_port (opt_port opts)"
      using i len l x parse_host [of opt "ps ! i"] parse_port [of opt "ps ! i"]
      by (intro exI [of _ opt] exI [of _ "ps ! i"]) simp
  qed (simp_all add: l x len)
qed

section \<open>Lemmas about objects and \<^verbatim>\<open>omit\<close>\<close>













section \<open>Lemmas about \<^verbatim>\<open>callback\<close>\<close>

lemma resolve_host_state:
  assumes "resolve_host e host s = (r, s1)"
  shows "agent s1 = agent s \<and> heap s1 = heap s \<and>
         trace s1 = trace s @ (if lookups (agent s) \<noteq> [] then [DnsLookup host] else [])"
  using assms
  by (auto simp: resolve_host_def dnsLookup_def truthy_array_def split: if_splits sum.splits)

lemma resolve_host_result:
  "fst (resolve_host e host s) =
     (if lookups (agent s) \<noteq> []
      then (case dns_lookup e host of Inl err \<Rightarrow> Inl (DnsFailure err) | Inr res \<Rightarrow> Inr res)
      else Inr host)"
  by (auto simp: resolve_host_def dnsLookup_def truthy_array_def split: sum.splits)

lemma create_tunnel_state:
  assumes "create_tunnel e host port s = (r, s')"
  shows "agent s' = agent s \<and> heap s' = heap s \<and>
         trace s' = trace s @ [spec_tunnel_call (proxies (agent s)) host port]"
proof (cases "length (proxies (agent s)) = 1")
  case True
  then have "hd (proxies (agent s)) = proxies (agent s) ! 0"
    by (cases "proxies (agent s)") auto
  with True assms show ?thesis
    by (auto simp: create_tunnel_def spec_tunnel_call_def Let_def split: sum.splits)
next
  case False
  with assms show ?thesis
    by (auto simp: create_tunnel_def spec_tunnel_call_def Let_def split: sum.splits)
qed

lemma establish_no_host:
  "\<not> truthy (get_prop (heap s ! opts) ''host'') \<Longrightarrow> establish e opts s = (Inl NoHostDefined, s)"
  by (simp add: establish_def)

lemma establish_dns_failure:
  assumes "truthy (get_prop (heap s ! opts) ''host'')"
    and "fst (resolve_host e (get_prop (heap s ! opts) ''host'') s) = Inl err"
  shows "establish e opts s = (Inl err, snd (resolve_host e (get_prop (heap s ! opts) ''host'') s))"
  using assms by (auto simp: establish_def Let_def split: prod.splits sum.splits)

lemma establish_tunnel:
  assumes "truthy (get_prop (heap s ! opts) ''host'')"
    and "resolve_host e (get_prop (heap s ! opts) ''host'') s = (Inr host1, s1)"
  shows "\<exists>r s2. establish e opts s = (r, s2) \<and> agent s2 = agent s \<and> heap s2 = heap s \<and>
           trace s2 = trace s1 @ [spec_tunnel_call (proxies (agent s)) host1
                                    (get_prop (heap s ! opts) ''port'')] \<and>
           (case r of Inl err \<Rightarrow> True | Inr (h, sock) \<Rightarrow> h = host1)"
proof -
  obtain r s2 where t: "create_tunnel e host1 (get_prop (heap s ! opts) ''port'') s1 = (r, s2)"
    by (cases "create_tunnel e host1 (get_prop (heap s ! opts) ''port'') s1") auto
  from resolve_host_state [OF assms(2)] create_tunnel_state [OF t] assms t
  show ?thesis
    by (cases r) (auto simp: establish_def Let_def)
qed

lemma establish_state:
  assumes "establish e opts s = (r, s2)"
  shows "agent s2 = agent s \<and> heap s2 = heap s \<and> (\<exists>evs. trace s2 = trace s @ evs)"
proof (cases "truthy (get_prop (heap s ! opts) ''host'')")
  case False
  with assms show ?thesis by (simp add: establish_no_host)
next
  case True
  obtain r1 s1 where r: "resolve_host e (get_prop (heap s ! opts) ''host'') s = (r1, s1)"
    by (cases "resolve_host e (get_prop (heap s ! opts) ''host'') s") auto
  show ?thesis
  proof (cases r1)
    case (Inl err)
    with establish_dns_failure [OF True, of e err] r assms resolve_host_state [OF r]
    show ?thesis by auto
  next
    case (Inr host1)
    with establish_tunnel [OF True, of e host1 s1] r assms resolve_host_state [OF r]
    show ?thesis by auto
  qed
qed

lemma upgrade_state:
  assumes "upgrade e opts host socket s = (r, s')"
  shows "agent s' = agent s \<and> (\<exists>evs. trace s' = trace s @ evs \<and> (\<forall>ev \<in> set evs. \<not> is_tunnel ev \<and> \<not> is_dns ev))"
  using assms
  by (auto simp: upgrade_def Let_def split: if_splits prod.splits)

lemma callback_agent: "agent (snd (callback e opts s)) = agent s"
proof -
  obtain r s2 where est: "establish e opts s = (r, s2)"
    by (cases "establish e opts s") auto
  show ?thesis
  proof (cases r)
    case (Inl err)
    with est establish_state [OF est] show ?thesis by (simp add: callback_def)
  next
    case (Inr hs)
    obtain host1 socket where hs: "hs = (host1, socket)" by (cases hs) auto
    obtain r' s' where up: "upgrade e opts host1 socket s2 = (r', s')"
      by (cases "upgrade e opts host1 socket s2") auto
    from est Inr hs up establish_state [OF est] upgrade_state [OF up]
    show ?thesis by (simp add: callback_def)
  qed
qed

lemma run_requests_agent: "agent (run_requests reqs s) = agent s"
  by (induction reqs s rule: run_requests.induct) (simp_all add: callback_agent)

lemma is_tunnel_spec_tunnel_call [simp]:
  "is_tunnel (spec_tunnel_call chain host port)" "\<not> is_dns (spec_tunnel_call chain host port)"
  by (simp_all add: spec_tunnel_call_def)

lemma callback_trace:
  assumes "truthy (get_prop (heap s ! opts) ''host'')"
    and "fst (resolve_host e (get_prop (heap s ! opts) ''host'') s) = Inr host1"
  shows "\<exists>evs. new_events e opts s =
           (if lookups (agent s) \<noteq> [] then [DnsLookup (get_prop (heap s ! opts) ''host'')] else [])
           @ [spec_tunnel_call (proxies (agent s)) host1 (get_prop (heap s ! opts) ''port'')]
           @ evs
         \<and> (\<forall>ev \<in> set evs. \<not> is_tunnel ev \<and> \<not> is_dns ev)"
proof -
  let ?host = "get_prop (heap s ! opts) ''host''"
  obtain s1 where r: "resolve_host e ?host s = (Inr host1, s1)"
    using assms(2) by (cases "resolve_host e ?host s") auto
  from establish_tunnel [OF assms(1) r] obtain res s2 where
    est: "establish e opts s = (res, s2)" and
    tr: "trace s2 = trace s1 @ [spec_tunnel_call (proxies (agent s)) host1
                                    (get_prop (heap s ! opts) ''port'')]"
    by blast
  note t1 = resolve_host_state [OF r]
  show ?thesis
  proof (cases res)
    case (Inl err)
    with est tr t1 show ?thesis
      by (simp add: new_events_def callback_def)
  next
    case (Inr hs)
    obtain h socket where hs: "hs = (h, socket)" by (cases hs) auto
    obtain r' s' where up: "upgrade e opts h socket s2 = (r', s')"
      by (cases "upgrade e opts h socket s2") auto
    from upgrade_state [OF up] obtain evs where
      "trace s' = trace s2 @ evs" "\<forall>ev \<in> set evs. \<not> is_tunnel ev \<and> \<not> is_dns ev"
      by blast
    with est Inr hs up tr t1 show ?thesis
      by (simp add: new_events_def callback_def)
  qed
qed

lemma callback_tunnel_events:
  assumes "truthy (get_prop (heap s ! opts) ''host'')"
    and "fst (resolve_host e (get_prop (heap s ! opts) ''host'') s) = Inr host1"
  shows "filter is_tunnel (new_events e opts s) =
           [spec_tunnel_call (proxies (agent s)) host1 (get_prop (heap s ! opts) ''port'')]"
proof -
  from callback_trace [OF assms] obtain evs where
    "new_events e opts s =
           (if lookups (agent s) \<noteq> [] then [DnsLookup (get_prop (heap s ! opts) ''host'')] else [])
           @ [spec_tunnel_call (proxies (agent s)) host1 (get_prop (heap s ! opts) ''port'')]
           @ evs" "\<forall>ev \<in> set evs. \<not> is_tunnel ev \<and> \<not> is_dns ev"
    by blast
  then show ?thesis
    by (simp add: filter_empty_conv)
qed

lemma callback_no_tunnel:
  assumes "\<not> truthy (get_prop (heap s ! opts) ''host'') \<or>
           (\<exists>err. fst (resolve_host e (get_prop (heap s ! opts) ''host'') s) = Inl err)"
  shows "filter is_tunnel (new_events e opts s) = [] \<and> (\<exists>err. fst (callback e opts s) = Inl err)"
proof (cases "truthy (get_prop (heap s ! opts) ''host'')")
  case False
  then show ?thesis
    by (simp add: new_events_def callback_def establish_no_host)
next
  case True
  with assms obtain err where
    err: "fst (resolve_host e (get_prop (heap s ! opts) ''host'') s) = Inl err"
    by blast
  obtain s1 where r: "resolve_host e (get_prop (heap s ! opts) ''host'') s = (Inl err, s1)"
    using err by (cases "resolve_host e (get_prop (heap s ! opts) ''host'') s") auto
  from establish_dns_failure [OF True err] r resolve_host_state [OF r]
  show ?thesis
    by (simp add: new_events_def callback_def)
qed

text \<open>The DNS lookups of one call: one, whenever the request has a host and the chain is not empty.\<close>

lemma callback_dns_events:
  "filter is_dns (new_events e opts s) =
     (if truthy (get_prop (heap s ! opts) ''host'') \<and> lookups (agent s) \<noteq> []
      then [DnsLookup (get_prop (heap s ! opts) ''host'')] else [])"
proof (cases "truthy (get_prop (heap s ! opts) ''host'')")
  case False
  then show ?thesis
    by (simp add: new_events_def callback_def establish_no_host)
next
  case True
  let ?host = "get_prop (heap s ! opts) ''host''"
  obtain r1 s1 where r: "resolve_host e ?host s = (r1, s1)"
    by (cases "resolve_host e ?host s") auto
  show ?thesis
  proof (cases r1)
    case (Inl err)
    with establish_dns_failure [OF True, of e err] r resolve_host_state [OF r] True
    show ?thesis
      by (simp add: new_events_def callback_def)
  next
    case (Inr host1)
    with callback_trace [OF True, of e host1] r True
    show ?thesis
      by (auto simp: filter_empty_conv)
  qed
qed

text \<open>A lookup that fails ends the call with its error, and the client is not asked.\<close>

lemma callback_dns_failure:
  assumes "truthy (get_prop (heap s ! opts) ''host'')" and "lookups (agent s) \<noteq> []"
    and "dns_lookup e (get_prop (heap s ! opts) ''host'') = Inl msg"
  shows "fst (callback e opts s) = Inl (DnsFailure msg)
         \<and> new_events e opts s = [DnsLookup (get_prop (heap s ! opts) ''host'')]"
proof -
  let ?host = "get_prop (heap s ! opts) ''host''"
  have err: "fst (resolve_host e ?host s) = Inl (DnsFailure msg)"
    using assms by (simp add: resolve_host_result)
  obtain s1 where r: "resolve_host e ?host s = (Inl (DnsFailure msg), s1)"
    using err by (cases "resolve_host e ?host s") auto
  from establish_dns_failure [OF assms(1) err] r resolve_host_state [OF r] assms(2)
  show ?thesis
    by (simp add: new_events_def callback_def)
qed






lemma event_chain_spec_tunnel_call: "event_chain (spec_tunnel_call chain host port) = chain"
  by (cases chain) (auto simp: spec_tunnel_call_def)

lemma callback_tunnel_chain:
  assumes "ev \<in> set (new_events e opts s)" and "is_tunnel ev"
  shows "event_chain ev = proxies (agent s)"
proof -
  let ?host = "get_prop (heap s ! opts) ''host''"
  have ev: "ev \<in> set (filter is_tunnel (new_events e opts s))"
    using assms by simp
  show ?thesis
  proof (cases "truthy ?host")
    case False
    with callback_no_tunnel [of s opts e] ev show ?thesis
      by simp
  next
    case True
    show ?thesis
    proof (cases "fst (resolve_host e ?host s)")
      case (Inl err)
      with callback_no_tunnel [of s opts e] ev show ?thesis
        by simp
    next
      case (Inr host1)
      from callback_tunnel_events [OF True Inr] ev show ?thesis
        by (simp add: event_chain_spec_tunnel_call)
    qed
  qed
qed

section \<open>The sample inputs, evaluated\<close>

lemmas sample_defs = no_opts_def socks_url_opts_def socks5h_opts_def socks4_opts_def
  sample_proxy_def socks4_proxy_def sample_url_parse_def sample_env_def enum_prop_def
  sample_request_def sample_state_def

lemmas parse_defs = parseSocksProxy_def js_or_def truthy_str_def credentials_def js_index_def
  protocol_switch_def

lemma parse_socks5h:
  "parseSocksProxy socks5h_opts = Inr \<lparr>lookup = False, proxy = sample_proxy\<rparr>"
  by (simp add: sample_defs parse_defs)

lemma parse_socks4:
  "parseSocksProxy socks4_opts = Inr \<lparr>lookup = True, proxy = socks4_proxy\<rparr>"
  by (simp add: sample_defs parse_defs)

lemma parseInt10_1080: "parseInt10 ''1080'' = Num 1080"
  by (simp add: parseInt10_def is_space_def is_digit_def digits_value_def)

lemma parse_socks_url:
  "parseSocksProxy socks_url_opts = Inr \<lparr>lookup = False, proxy = sample_proxy\<rparr>"
  by (simp add: sample_defs parse_defs parseInt10_1080)

lemma sample_request_host: "get_prop sample_request ''host'' = JStr ''example.com''"
  by (simp add: sample_request_def get_prop_def enum_prop_def)

lemma sample_request_port: "get_prop sample_request ''port'' = JNum (Num 443)"
  by (simp add: sample_request_def get_prop_def enum_prop_def)




lemma sample_agent_two:
  "new_SocksProxyAgent sample_url_parse
     (Array [RawString ''socks://127.0.0.1:1080'', RawOptions socks4_opts])
     = Inr \<lparr>lookups = [False, True], proxies = [sample_proxy, socks4_proxy]\<rparr>"
  by (simp add: new_SocksProxyAgent_def rawOptsArray_def sample_url_parse_def
                parse_socks_url parse_socks4)

lemma sample_agent_one:
  "new_SocksProxyAgent sample_url_parse (Array [RawString ''socks://127.0.0.1:1080''])
     = Inr \<lparr>lookups = [False], proxies = [sample_proxy]\<rparr>"
  by (simp add: new_SocksProxyAgent_def rawOptsArray_def sample_url_parse_def parse_socks_url)

lemma sample_agent_single:
  "new_SocksProxyAgent sample_url_parse (Single (RawString ''socks://127.0.0.1:1080''))
     = Inr \<lparr>lookups = [False], proxies = [sample_proxy]\<rparr>"
  by (simp add: new_SocksProxyAgent_def rawOptsArray_def sample_url_parse_def parse_socks_url)

lemma sample_resolve:
  "lookups a \<noteq> [] \<Longrightarrow>
     fst (resolve_host sample_env (get_prop (heap (sample_state a) ! 0) ''host'') (sample_state a))
       = Inr (JStr ''93.184.216.34'')"
  by (simp add: resolve_host_result sample_state_def sample_env_def)

lemma sample_tunnel_event:
  "CreateConnection \<lparr>sc_proxy = sample_proxy,
      sc_destination = (JStr ''93.184.216.34'', JNum (Num 443)), sc_command = ''connect''\<rparr>
     \<in> set (new_events sample_env 0
               (sample_state \<lparr>lookups = [False], proxies = [sample_proxy]\<rparr>))"
proof -
  let ?s = "sample_state \<lparr>lookups = [False], proxies = [sample_proxy]\<rparr>"
  have "truthy (get_prop (heap ?s ! 0) ''host'')"
    by (simp add: sample_state_def sample_request_host)
  moreover have "fst (resolve_host sample_env (get_prop (heap ?s ! 0) ''host'') ?s)
                   = Inr (JStr ''93.184.216.34'')"
    by (rule sample_resolve) simp
  ultimately have "filter is_tunnel (new_events sample_env 0 ?s)
      = [spec_tunnel_call [sample_proxy] (JStr ''93.184.216.34'')
           (get_prop (heap ?s ! 0) ''port'')]"
    using callback_tunnel_events [of ?s 0 sample_env "JStr ''93.184.216.34''"]
    by (simp add: sample_state_def)
  then have "spec_tunnel_call [sample_proxy] (JStr ''93.184.216.34'') (JNum (Num 443))
               \<in> set (filter is_tunnel (new_events sample_env 0 ?s))"
    by (simp add: sample_state_def sample_request_port)
  then show ?thesis
    by (simp add: spec_tunnel_call_def)
qed

section \<open>The claims\<close>

subsection \<open>C1: when the destination host is resolved\<close>

text \<open>
  C1 says that the destination is resolved by a DNS lookup exactly when the chain is not
  empty and some hop's resolution flag is true. The test of line 168 is
  \<^verbatim>\<open>lookups.length>0 && lookups\<close>, and an array is always truthy: the lookup is made for
  every non-empty chain. Here the agent is built from \<^verbatim>\<open>socks5h://127.0.0.1:1080\<close>, its only
  flag is false, and the request for \<^verbatim>\<open>example.com\<close> still asks the local resolver and
  sends the proxy the address instead of the name.
\<close>

theorem C1_dns_lookup_without_resolution_flag:
  "new_SocksProxyAgent parse (Single (RawOptions socks5h_opts))
     = Inr \<lparr>lookups = [False], proxies = [sample_proxy]\<rparr>
   \<and> filter is_dns (new_events sample_env 0
                      (sample_state \<lparr>lookups = [False], proxies = [sample_proxy]\<rparr>))
     = [DnsLookup (JStr ''example.com'')]
   \<and> filter is_tunnel (new_events sample_env 0
                      (sample_state \<lparr>lookups = [False], proxies = [sample_proxy]\<rparr>))
     = [CreateConnection \<lparr>sc_proxy = sample_proxy,
                           sc_destination = (JStr ''93.184.216.34'', JNum (Num 443)),
                           sc_command = ''connect''\<rparr>]"
proof (intro conjI)
  show "new_SocksProxyAgent parse (Single (RawOptions socks5h_opts))
     = Inr \<lparr>lookups = [False], proxies = [sample_proxy]\<rparr>"
    by (simp add: new_SocksProxyAgent_def rawOptsArray_def parse_socks5h)
  show "filter is_dns (new_events sample_env 0
                      (sample_state \<lparr>lookups = [False], proxies = [sample_proxy]\<rparr>))
     = [DnsLookup (JStr ''example.com'')]"
    by (simp add: callback_dns_events sample_state_def sample_request_host)
  have "fst (resolve_host sample_env (JStr ''example.com'')
               (sample_state \<lparr>lookups = [False], proxies = [sample_proxy]\<rparr>))
          = Inr (JStr ''93.184.216.34'')"
    by (simp add: resolve_host_result sample_state_def sample_env_def)
  then show "filter is_tunnel (new_events sample_env 0
                      (sample_state \<lparr>lookups = [False], proxies = [sample_proxy]\<rparr>))
     = [CreateConnection \<lparr>sc_proxy = sample_proxy,
                           sc_destination = (JStr ''93.184.216.34'', JNum (Num 443)),
                           sc_command = ''connect''\<rparr>]"
    using callback_tunnel_events
            [of "sample_state \<lparr>lookups = [False], proxies = [sample_proxy]\<rparr>" 0
                sample_env "JStr ''93.184.216.34''"]
    by (simp add: sample_state_def sample_request_host sample_request_port
                  spec_tunnel_call_def)
qed

subsection \<open>C2: the protocol scheme\<close>




subsection \<open>C3: the chain follows the array\<close>

text \<open>
  C3: when the constructor accepts an array of specs, strings and objects mixed, the agent
  has one descriptor for each element, in the order of the array, with the host (\<^verbatim>\<open>hostname\<close>
  before \<^verbatim>\<open>host\<close>) and the port of that element; and a call of \<^verbatim>\<open>callback\<close> that reaches the
  tunnel asks the client once: a single-hop connect against the one descriptor when the chain
  has exactly one hop, a chained connect over the descriptors in the order of the chain for
  any other length.
\<close>

theorem C3_chain_order:
  assumes "new_SocksProxyAgent parse (Array specs) = Inr a"
  shows "length (proxies a) = length specs
         \<and> (\<forall>i < length specs.
              \<exists>opts. spec_fields parse (specs ! i) = Some opts \<and>
                     js_or (opt_hostname opts) (opt_host opts)
                       = Some (proxy_host (proxies a ! i)) \<and>
                     proxy_port (proxies a ! i) = spec_port (opt_port opts))
         \<and> (\<forall>e opts s host1.
              agent s = a \<and> truthy (get_prop (heap s ! opts) ''host'') \<and>
              fst (resolve_host e (get_prop (heap s ! opts) ''host'') s) = Inr host1
              \<longrightarrow> filter is_tunnel (new_events e opts s)
                    = [spec_tunnel_call (proxies a) host1 (get_prop (heap s ! opts) ''port'')])"
proof (intro conjI allI impI)
  note chain = new_agent_chain [OF assms, unfolded rawOptsArray_def, simplified]
  show "length (proxies a) = length specs"
    using chain by simp
  fix i assume "i < length specs"
  with chain show "\<exists>opts. spec_fields parse (specs ! i) = Some opts \<and>
                     js_or (opt_hostname opts) (opt_host opts)
                       = Some (proxy_host (proxies a ! i)) \<and>
                     proxy_port (proxies a ! i) = spec_port (opt_port opts)"
    by blast
next
  fix e opts host1 and s :: cstate
  assume "agent s = a \<and> truthy (get_prop (heap s ! opts) ''host'') \<and>
              fst (resolve_host e (get_prop (heap s ! opts) ''host'') s) = Inr host1"
  then show "filter is_tunnel (new_events e opts s)
                    = [spec_tunnel_call (proxies a) host1 (get_prop (heap s ! opts) ''port'')]"
    using callback_tunnel_events [of s opts e host1] by auto
qed

text \<open>
  The theorem at an array of a URL and an object, whose chain has two hops, and at an array
  of the URL alone.
\<close>

theorem C3_chain_order_witness:
  "new_SocksProxyAgent sample_url_parse
     (Array [RawString ''socks://127.0.0.1:1080'', RawOptions socks4_opts])
     = Inr \<lparr>lookups = [False, True], proxies = [sample_proxy, socks4_proxy]\<rparr>
   \<and> filter is_tunnel (new_events sample_env 0
         (sample_state \<lparr>lookups = [False, True], proxies = [sample_proxy, socks4_proxy]\<rparr>))
       = [CreateConnectionChain \<lparr>scc_proxies = [sample_proxy, socks4_proxy],
             scc_destination = (JStr ''93.184.216.34'', JNum (Num 443)),
             scc_command = ''connect''\<rparr>]
   \<and> new_SocksProxyAgent sample_url_parse (Array [RawString ''socks://127.0.0.1:1080''])
       = Inr \<lparr>lookups = [False], proxies = [sample_proxy]\<rparr>
   \<and> filter is_tunnel (new_events sample_env 0
         (sample_state \<lparr>lookups = [False], proxies = [sample_proxy]\<rparr>))
       = [CreateConnection \<lparr>sc_proxy = sample_proxy,
             sc_destination = (JStr ''93.184.216.34'', JNum (Num 443)),
             sc_command = ''connect''\<rparr>]"
proof -
  let ?a2 = "\<lparr>lookups = [False, True], proxies = [sample_proxy, socks4_proxy]\<rparr>"
  let ?a1 = "\<lparr>lookups = [False], proxies = [sample_proxy]\<rparr>"
  have host: "\<And>a. truthy (get_prop (heap (sample_state a) ! 0) ''host'')"
    by (simp add: sample_state_def sample_request_host)
  have port: "\<And>a. get_prop (heap (sample_state a) ! 0) ''port'' = JNum (Num 443)"
    by (simp add: sample_state_def sample_request_port)
  have ag: "\<And>a. agent (sample_state a) = a"
    by (simp add: sample_state_def)
  have r2: "fst (resolve_host sample_env (get_prop (heap (sample_state ?a2) ! 0) ''host'')
                   (sample_state ?a2)) = Inr (JStr ''93.184.216.34'')"
    by (rule sample_resolve) simp
  have r1: "fst (resolve_host sample_env (get_prop (heap (sample_state ?a1) ! 0) ''host'')
                   (sample_state ?a1)) = Inr (JStr ''93.184.216.34'')"
    by (rule sample_resolve) simp
  from C3_chain_order [OF sample_agent_two, THEN conjunct2, THEN conjunct2, rule_format,
         of "sample_state ?a2" 0 sample_env "JStr ''93.184.216.34''"] ag host r2
  have 2: "filter is_tunnel (new_events sample_env 0 (sample_state ?a2))
       = [CreateConnectionChain \<lparr>scc_proxies = [sample_proxy, socks4_proxy],
             scc_destination = (JStr ''93.184.216.34'', JNum (Num 443)),
             scc_command = ''connect''\<rparr>]"
    by (simp add: port spec_tunnel_call_def)
  from C3_chain_order [OF sample_agent_one, THEN conjunct2, THEN conjunct2, rule_format,
         of "sample_state ?a1" 0 sample_env "JStr ''93.184.216.34''"] ag host r1
  have 1: "filter is_tunnel (new_events sample_env 0 (sample_state ?a1))
       = [CreateConnection \<lparr>sc_proxy = sample_proxy,
             sc_destination = (JStr ''93.184.216.34'', JNum (Num 443)),
             sc_command = ''connect''\<rparr>]"
    by (simp add: port spec_tunnel_call_def)
  from sample_agent_two 2 sample_agent_one 1 show ?thesis
    by (intro conjI)
qed

subsection \<open>C4: the TLS upgrade\<close>



subsection \<open>C5: credentials\<close>

text \<open>
  C5 says that \<^verbatim>\<open>auth\<close> is split on its first colon, so that a password may contain
  colons. Lines 90-92 split on every colon and keep the first two pieces: of
  \<^verbatim>\<open>user:pa:ss\<close> the password that reaches the descriptor is \<^verbatim>\<open>pa\<close>.
\<close>

theorem C5_auth_split_truncates_password:
  "parseSocksProxy (no_opts\<lparr>opt_hostname := Some ''127.0.0.1'',
                            opt_auth := Some ''user:pa:ss''\<rparr>)
     = Inr \<lparr>lookup = False,
            proxy = \<lparr>proxy_host = ''127.0.0.1'', proxy_port = Num 1080, proxy_type = Num 5,
                      proxy_userId = Some ''user'', proxy_password = Some ''pa''\<rparr>\<rparr>"
  by (simp add: no_opts_def parse_defs)

subsection \<open>C6: the port\<close>



subsection \<open>C7: the invariant of a descriptor\<close>

text \<open>
  C7, as amended: every descriptor produced by parsing has type 4 or 5, a port that is a
  number other than zero (never NaN; the code checks neither its sign, nor that it is an
  integer, nor its range) and a host that is not empty. Parsing fails with the error of a
  missing host when neither \<^verbatim>\<open>hostname\<close> nor \<^verbatim>\<open>host\<close> is there, and, when there is a host
  and the protocol is absent or one of the table, with the error of an invalid type when an
  explicit type other than 4 and 5 is given.
\<close>

theorem C7_descriptor_invariant:
  "(\<forall>p. parseSocksProxy opts = Inr p \<longrightarrow>
        (proxy_type (proxy p) = Num 4 \<or> proxy_type (proxy p) = Num 5)
        \<and> proxy_port (proxy p) \<noteq> Num 0 \<and> proxy_port (proxy p) \<noteq> NaN
        \<and> proxy_host (proxy p) \<noteq> [])
   \<and> (\<not> truthy_str (opt_hostname opts) \<and> \<not> truthy_str (opt_host opts)
        \<longrightarrow> parseSocksProxy opts = Inl NoHost)
   \<and> (\<forall>t. truthy_str (js_or (opt_hostname opts) (opt_host opts))
          \<and> (truthy_str (opt_protocol opts)
                \<longrightarrow> spec_scheme_table (the (opt_protocol opts)) \<noteq> None)
          \<and> opt_type opts = Some t \<and> t \<noteq> Num 4 \<and> t \<noteq> Num 5
        \<longrightarrow> parseSocksProxy opts = Inl (InvalidType t))"
proof (intro conjI allI impI)
  fix p assume p: "parseSocksProxy opts = Inr p"
  show "proxy_type (proxy p) = Num 4 \<or> proxy_type (proxy p) = Num 5"
    by (rule parse_type [OF p])
  show "proxy_port (proxy p) \<noteq> Num 0" "proxy_port (proxy p) \<noteq> NaN"
    unfolding parse_port [OF p] by (auto simp: spec_port_def split: port_field.splits)
  show "proxy_host (proxy p) \<noteq> []"
    using parse_host [OF p] by simp
next
  assume "\<not> truthy_str (opt_hostname opts) \<and> \<not> truthy_str (opt_host opts)"
  then show "parseSocksProxy opts = Inl NoHost"
    by (simp add: parse_no_host)
next
  fix t
  assume "truthy_str (js_or (opt_hostname opts) (opt_host opts))
          \<and> (truthy_str (opt_protocol opts)
                \<longrightarrow> spec_scheme_table (the (opt_protocol opts)) \<noteq> None)
          \<and> opt_type opts = Some t \<and> t \<noteq> Num 4 \<and> t \<noteq> Num 5"
  then show "parseSocksProxy opts = Inl (InvalidType t)"
    by (intro parse_invalid_type) simp_all
qed

text \<open>
  The theorem at \<^verbatim>\<open>socks4://10.0.0.1\<close>, which parses, at the empty object, which has no
  host, and at the first with the explicit type 6.
\<close>

theorem C7_descriptor_invariant_witness:
  "parseSocksProxy socks4_opts = Inr \<lparr>lookup = True, proxy = socks4_proxy\<rparr>
   \<and> (proxy_type socks4_proxy = Num 4 \<or> proxy_type socks4_proxy = Num 5)
   \<and> proxy_port socks4_proxy \<noteq> Num 0 \<and> proxy_port socks4_proxy \<noteq> NaN
   \<and> proxy_host socks4_proxy \<noteq> []
   \<and> \<not> truthy_str (opt_hostname no_opts) \<and> \<not> truthy_str (opt_host no_opts)
   \<and> parseSocksProxy no_opts = Inl NoHost
   \<and> truthy_str (js_or (opt_hostname (socks4_opts\<lparr>opt_type := Some (Num 6)\<rparr>))
                        (opt_host (socks4_opts\<lparr>opt_type := Some (Num 6)\<rparr>)))
   \<and> spec_scheme_table (the (opt_protocol (socks4_opts\<lparr>opt_type := Some (Num 6)\<rparr>))) \<noteq> None
   \<and> parseSocksProxy (socks4_opts\<lparr>opt_type := Some (Num 6)\<rparr>) = Inl (InvalidType (Num 6))"
  using C7_descriptor_invariant [of socks4_opts, THEN conjunct1, rule_format, OF parse_socks4]
        C7_descriptor_invariant [of no_opts, THEN conjunct2, THEN conjunct1]
        C7_descriptor_invariant [of "socks4_opts\<lparr>opt_type := Some (Num 6)\<rparr>",
          THEN conjunct2, THEN conjunct2, rule_format, of "Num 6"]
        parse_socks4
  by (simp add: socks4_opts_def no_opts_def js_or_def truthy_str_def spec_scheme_table_def)

text \<open>
  As stated C7 fails: the port \<open>-1\<close> is taken as it is (lines 37-47 only replace a
  falsy port), so the descriptor does not satisfy the invariant of the specification; and an
  invalid type without a host is reported as a missing host.
\<close>

theorem C7_counterexample:
  "parseSocksProxy (socks4_opts\<lparr>opt_port := PortNum (Num (- 1))\<rparr>)
     = Inr \<lparr>lookup = True, proxy = socks4_proxy\<lparr>proxy_port := Num (- 1)\<rparr>\<rparr>
   \<and> \<not> spec_descriptor_invariant (socks4_proxy\<lparr>proxy_port := Num (- 1)\<rparr>)
   \<and> parseSocksProxy (no_opts\<lparr>opt_type := Some (Num 6)\<rparr>) = Inl NoHost"
  by (simp add: sample_defs parse_defs spec_descriptor_invariant_def spec_positive_integer_def)

subsection \<open>C8: a missing spec\<close>



subsection \<open>C9: the chain is fixed at construction\<close>

text \<open>
  C9, as amended: for a construction argument that is a single spec or an array that is not
  empty, the chain is an ordered, non-empty sequence with one descriptor and one flag for
  each element of the argument, built by the constructor, and never changed afterwards: after
  any number of calls of \<^verbatim>\<open>callback\<close> the agent is the one the constructor returned, and the
  chain handed to the client by any call is the chain of the constructor.
\<close>

theorem C9_chain_fixed:
  assumes "new_SocksProxyAgent parse raw = Inr a" and "rawOptsArray raw \<noteq> []"
  shows "proxies a \<noteq> []
         \<and> length (proxies a) = length (rawOptsArray raw)
         \<and> length (lookups a) = length (rawOptsArray raw)
         \<and> (\<forall>reqs s. agent s = a \<longrightarrow> agent (run_requests reqs s) = a)
         \<and> (\<forall>e opts s ev. agent s = a \<and> ev \<in> set (new_events e opts s) \<and> is_tunnel ev
              \<longrightarrow> event_chain ev = proxies a)"
proof (intro conjI allI impI)
  note chain = new_agent_chain [OF assms(1)]
  show "length (proxies a) = length (rawOptsArray raw)"
    and "length (lookups a) = length (rawOptsArray raw)"
    using chain by simp_all
  then show "proxies a \<noteq> []"
    using assms(2) by auto
next
  fix reqs and s :: cstate
  assume "agent s = a"
  then show "agent (run_requests reqs s) = a"
    by (simp add: run_requests_agent)
next
  fix e opts ev and s :: cstate
  assume "agent s = a \<and> ev \<in> set (new_events e opts s) \<and> is_tunnel ev"
  then show "event_chain ev = proxies a"
    using callback_tunnel_chain [of ev e opts s] by auto
qed

text \<open>
  The theorem at the agent of \<^verbatim>\<open>socks://127.0.0.1:1080\<close>, after two requests and for the
  tunnel call of a request.
\<close>

theorem C9_chain_fixed_witness:
  "new_SocksProxyAgent sample_url_parse (Single (RawString ''socks://127.0.0.1:1080''))
     = Inr \<lparr>lookups = [False], proxies = [sample_proxy]\<rparr>
   \<and> rawOptsArray (Single (RawString ''socks://127.0.0.1:1080'')) \<noteq> []
   \<and> proxies \<lparr>lookups = [False], proxies = [sample_proxy]\<rparr> \<noteq> []
   \<and> agent (run_requests [(sample_env, 0), (sample_env, 0)]
               (sample_state \<lparr>lookups = [False], proxies = [sample_proxy]\<rparr>))
       = \<lparr>lookups = [False], proxies = [sample_proxy]\<rparr>
   \<and> CreateConnection \<lparr>sc_proxy = sample_proxy,
         sc_destination = (JStr ''93.184.216.34'', JNum (Num 443)), sc_command = ''connect''\<rparr>
       \<in> set (new_events sample_env 0
                 (sample_state \<lparr>lookups = [False], proxies = [sample_proxy]\<rparr>))
   \<and> event_chain (CreateConnection \<lparr>sc_proxy = sample_proxy,
         sc_destination = (JStr ''93.184.216.34'', JNum (Num 443)), sc_command = ''connect''\<rparr>)
       = proxies \<lparr>lookups = [False], proxies = [sample_proxy]\<rparr>"
proof -
  let ?a = "\<lparr>lookups = [False], proxies = [sample_proxy]\<rparr>"
  let ?ev = "CreateConnection \<lparr>sc_proxy = sample_proxy,
         sc_destination = (JStr ''93.184.216.34'', JNum (Num 443)), sc_command = ''connect''\<rparr>"
  have ne: "rawOptsArray (Single (RawString ''socks://127.0.0.1:1080'')) \<noteq> []"
    by (simp add: rawOptsArray_def)
  note c9 = C9_chain_fixed [OF sample_agent_single ne]
  have 1: "proxies ?a \<noteq> []"
    using c9 by blast
  have ag: "agent (sample_state ?a) = ?a"
    by (simp add: sample_state_def)
  with c9 have 2: "agent (run_requests [(sample_env, 0), (sample_env, 0)] (sample_state ?a)) = ?a"
    by blast
  have "is_tunnel ?ev"
    by simp
  with c9 ag sample_tunnel_event have 3: "event_chain ?ev = proxies ?a"
    by blast
  from sample_agent_single ne 1 2 sample_tunnel_event 3 show ?thesis
    by (intro conjI)
qed

text \<open>
  As stated C9 fails: the loop of lines 130-142 does nothing on an empty array, and
  the constructor returns an agent whose chain is empty.
\<close>

theorem C9_counterexample:
  "new_SocksProxyAgent sample_url_parse (Array []) = Inr \<lparr>lookups = [], proxies = []\<rparr>"
  by (simp add: new_SocksProxyAgent_def rawOptsArray_def)

subsection \<open>C10: \<^verbatim>\<open>omit\<close>\<close>



end
